theory Spec2Isabelle
  imports Main
begin

section \<open>JavaScript strings and values\<close>

text \<open>
  Strings are ASCII character lists: one \<^typ>\<open>char\<close> stands for one UTF-16 code unit of
  the source, so \<open>length\<close>, \<open>substring\<close> and \<open>includes\<close> agree with JavaScript on ASCII
  text. The few non-ASCII characters of the source's own literals (the two warning signs of
  the confirmation prompts) are written as their UTF-8 bytes.
\<close>

definition newline :: string where
  "newline = [CHR 0x0A]"

definition dquote :: string where
  "dquote = [CHR 0x22]"

text \<open>\<open>String.prototype.toLowerCase\<close> on ASCII: \<open>A\<close>..\<open>Z\<close> go to \<open>a\<close>..\<open>z\<close>.\<close>

definition toLowerCase_char :: "char \<Rightarrow> char" where
  "toLowerCase_char c =
     (case map_of (zip ''ABCDEFGHIJKLMNOPQRSTUVWXYZ'' ''abcdefghijklmnopqrstuvwxyz'') c of
        None \<Rightarrow> c
      | Some l \<Rightarrow> l)"

definition toLowerCase :: "string \<Rightarrow> string" where
  "toLowerCase s = map toLowerCase_char s"

text \<open>White space of \<open>trim\<close> and of the regular expression class \<open>\s\<close> (ASCII part):
  tab, line feed, vertical tab, form feed, carriage return, space.\<close>

definition is_space :: "char \<Rightarrow> bool" where
  "is_space c = (c \<in> set [CHR 0x09, CHR 0x0A, CHR 0x0B, CHR 0x0C, CHR 0x0D, CHR 0x20])"

definition trim :: "string \<Rightarrow> string" where
  "trim s = rev (dropWhile is_space (rev (dropWhile is_space s)))"

fun startsWith :: "string \<Rightarrow> string \<Rightarrow> bool" where
  "startsWith s [] = True"
| "startsWith [] (p # ps) = False"
| "startsWith (c # cs) (p # ps) = (c = p \<and> startsWith cs ps)"

text \<open>\<open>s.includes(sub)\<close> on strings.\<close>

fun str_includes :: "string \<Rightarrow> string \<Rightarrow> bool" where
  "str_includes [] sub = (sub = [])"
| "str_includes (c # cs) sub = (startsWith (c # cs) sub \<or> str_includes cs sub)"

text \<open>
  A thrown value: an \<open>Error\<close> with its \<open>message\<close>, and the \<open>stderr\<close> and \<open>stdout\<close>
  properties that \<open>child_process.exec\<close> attaches to its errors (empty when absent; the
  source only tests them for truthiness).
\<close>

datatype js_error = Error (err_message: string) (err_stderr: string) (err_stdout: string)

definition TypeError :: "string \<Rightarrow> js_error" where
  "TypeError m = Error m [] []"

section \<open>Values and the environment\<close>

text \<open>
  The values that the XML parser builds and the handlers receive (\<open>params: any\<close>).
\<close>

datatype jsval = JUndefined | JNull | JString string | JArray "jsval list"
  | JObject "(string \<times> jsval) list"

text \<open>
  Every call of an I/O primitive is recorded as an event. The environment answers a call
  as a function of the events that came before it, so any sequence of answers is covered:
  \<open>rl.question\<close>, the directory walk of \<open>listFile\<close>, \<open>fs.readFile\<close>, \<open>fs.mkdir\<close>,
  \<open>fs.writeFile\<close> and the promisified \<open>exec\<close> (which resolves with \<open>stdout\<close> and
  \<open>stderr\<close>). \<open>path.dirname\<close> and xml2js's \<open>parseStringPromise\<close> are functions of
  their argument. \<open>sendMessage\<close> answers a message given the messages sent before it,
  with the response text and the finish reason of the first candidate; an error thrown by
  \<open>chat.sendMessage\<close> or by \<open>response.text()\<close> is its \<open>Inl\<close>.
\<close>

datatype event =
    RlQuestion string
  | RlClose
  | FsReaddir jsval bool
  | FsReadFile jsval
  | FsMkdir string
  | FsWriteFile jsval jsval
  | ChildExec jsval

record model_response =
  response_text :: string
  finishReason :: "string option"

record platform =
  rl_question :: "event list \<Rightarrow> string \<Rightarrow> js_error + string"
  fs_readdir :: "event list \<Rightarrow> jsval \<Rightarrow> bool \<Rightarrow> js_error + string list"
  fs_readFile :: "event list \<Rightarrow> jsval \<Rightarrow> js_error + string"
  path_dirname :: "jsval \<Rightarrow> js_error + string"
  fs_mkdir :: "event list \<Rightarrow> string \<Rightarrow> js_error + unit"
  fs_writeFile :: "event list \<Rightarrow> jsval \<Rightarrow> jsval \<Rightarrow> js_error + unit"
  execAsync :: "event list \<Rightarrow> jsval \<Rightarrow> js_error + (string \<times> string)"
  parseStringPromise :: "string \<Rightarrow> js_error + jsval"
  sendMessage :: "string list \<Rightarrow> string \<Rightarrow> js_error + model_response"

text \<open>\<open>askForUserApproval\<close> (tools.ts): one prompt, one line, compared after lower-casing.\<close>

definition askForUserApproval ::
  "platform \<Rightarrow> event list \<Rightarrow> string \<Rightarrow> (js_error + bool) \<times> event list" where
  "askForUserApproval w tr question =
     (let prompt = question @ '' [y/n]: '' in
      case rl_question w tr prompt of
        Inl e \<Rightarrow> (Inl e, tr @ [RlQuestion prompt])
      | Inr answer \<Rightarrow> (Inr (toLowerCase answer = ''y''), tr @ [RlQuestion prompt]))"

section \<open>Reading parameters\<close>

text \<open>
  \<open>parseAndExecuteTool\<close> hands the handlers whatever the XML parser built (\<open>params: any\<close>):
  a text-only child is a string, a repeated child an array, a child with children an
  object, an absent child \<open>undefined\<close>. Reading a property of \<open>undefined\<close> or \<open>null\<close>
  throws a \<open>TypeError\<close>; the messages are V8's. Properties inherited from a prototype are
  not modelled: no parameter name read here is one, and a tool name that is one (such as
  \<open>constructor\<close>) ends in the unknown-tool branch, which does not use the value.
\<close>

definition read_error :: "string \<Rightarrow> string \<Rightarrow> js_error" where
  "read_error base name =
     TypeError (''Cannot read properties of '' @ base @ '' (reading '' @ [CHR 0x27] @ name
                @ [CHR 0x27] @ '')'')"

definition get_prop :: "jsval \<Rightarrow> string \<Rightarrow> js_error + jsval" where
  "get_prop v name =
     (case v of
        JUndefined \<Rightarrow> Inl (read_error ''undefined'' name)
      | JNull \<Rightarrow> Inl (read_error ''null'' name)
      | JObject kvs \<Rightarrow> (case map_of kvs name of None \<Rightarrow> Inr JUndefined | Some x \<Rightarrow> Inr x)
      | _ \<Rightarrow> Inr JUndefined)"

text \<open>Truthiness, as \<open>||\<close> and \<open>if\<close> test it.\<close>

definition truthy :: "jsval \<Rightarrow> bool" where
  "truthy v = (case v of JUndefined \<Rightarrow> False | JNull \<Rightarrow> False | JString s \<Rightarrow> s \<noteq> [] | _ \<Rightarrow> True)"

fun join :: "string \<Rightarrow> string list \<Rightarrow> string" where
  "join sep [] = []"
| "join sep [x] = x"
| "join sep (x # y # ys) = x @ sep @ join sep (y # ys)"

text \<open>\<open>ToString\<close>, as a template literal applies it.\<close>

fun js_to_string :: "jsval \<Rightarrow> string" where
  "js_to_string JUndefined = ''undefined''"
| "js_to_string JNull = ''null''"
| "js_to_string (JString s) = s"
| "js_to_string (JArray xs) =
     join '','' (map (\<lambda>x. if x = JUndefined \<or> x = JNull then [] else js_to_string x) xs)"
| "js_to_string (JObject kvs) = ''[object Object]''"

text \<open>\<open>v.includes(s)\<close>: a substring test on a string, a membership test on an array, a
  \<open>TypeError\<close> on anything else (\<open>what\<close> is the expression, for the message).\<close>

definition js_includes :: "string \<Rightarrow> jsval \<Rightarrow> string \<Rightarrow> js_error + bool" where
  "js_includes what v s =
     (case v of
        JString t \<Rightarrow> Inr (str_includes t s)
      | JArray xs \<Rightarrow> Inr (List.member xs (JString s))
      | JObject kvs \<Rightarrow> Inl (TypeError (what @ ''.includes is not a function''))
      | JUndefined \<Rightarrow> Inl (read_error ''undefined'' ''includes'')
      | JNull \<Rightarrow> Inl (read_error ''null'' ''includes''))"

section \<open>The tools (tools.ts)\<close>

text \<open>
  Console output is not modelled. A handler takes the events so far and returns its
  \<open>ToolResponse\<close> with the events extended by the I/O calls it made. Each handler is a
  \<open>try\<close> body, which may end in a thrown error, and the \<open>catch\<close> that turns the error
  into an unsuccessful response.
\<close>

record ToolResponse =
  success :: bool
  message :: string

definition ListFile :: string where "ListFile = ''list_file''"
definition ReadFile :: string where "ReadFile = ''read_file''"
definition WriteFile :: string where "WriteFile = ''write_file''"
definition AskQuestion :: string where "AskQuestion = ''ask_question''"
definition ExecuteCommand :: string where "ExecuteCommand = ''execute_command''"
definition Complete :: string where "Complete = ''complete''"

text \<open>\<open>params.recursive?.toLowerCase()\<close>.\<close>

definition opt_toLowerCase :: "jsval \<Rightarrow> js_error + jsval" where
  "opt_toLowerCase v =
     (case v of
        JUndefined \<Rightarrow> Inr JUndefined
      | JNull \<Rightarrow> Inr JUndefined
      | JString s \<Rightarrow> Inr (JString (toLowerCase s))
      | _ \<Rightarrow> Inl (TypeError ''params.recursive?.toLowerCase is not a function''))"

text \<open>
  \<open>listFile\<close>. The walk over the directory (\<open>fs.readdir\<close>, \<open>path.join\<close> and the recursive
  descent) is one answer of the environment: the joined paths in the order they are
  pushed, or the first error.
\<close>

definition listFile_try ::
  "platform \<Rightarrow> event list \<Rightarrow> jsval \<Rightarrow> (js_error + ToolResponse) \<times> event list" where
  "listFile_try w tr params =
     (case get_prop params ''path'' of
        Inl e \<Rightarrow> (Inl e, tr)
      | Inr p \<Rightarrow>
          (let targetPath = (if truthy p then p else JString ''.'') in
           case get_prop params ''recursive'' of
             Inl e \<Rightarrow> (Inl e, tr)
           | Inr r \<Rightarrow>
               (case opt_toLowerCase r of
                  Inl e \<Rightarrow> (Inl e, tr)
                | Inr l \<Rightarrow>
                    (let recursive = (l = JString ''true'') in
                     case fs_readdir w tr targetPath recursive of
                       Inl e \<Rightarrow> (Inl e, tr @ [FsReaddir targetPath recursive])
                     | Inr files \<Rightarrow>
                         (Inr \<lparr>success = True,
                               message = ''Directory '' @ js_to_string targetPath @ '' listing:''
                                 @ newline @ join newline (map (\<lambda>f. ''- '' @ f) files)\<rparr>,
                          tr @ [FsReaddir targetPath recursive])))))"

definition listFile :: "platform \<Rightarrow> event list \<Rightarrow> jsval \<Rightarrow> ToolResponse \<times> event list" where
  "listFile w tr params =
     (case listFile_try w tr params of
        (Inl e, tr') \<Rightarrow>
          (\<lparr>success = False, message = ''Failed to list directory: '' @ err_message e\<rparr>, tr')
      | (Inr r, tr') \<Rightarrow> (r, tr'))"

definition readFile_try ::
  "platform \<Rightarrow> event list \<Rightarrow> jsval \<Rightarrow> (js_error + ToolResponse) \<times> event list" where
  "readFile_try w tr params =
     (case get_prop params ''path'' of
        Inl e \<Rightarrow> (Inl e, tr)
      | Inr p \<Rightarrow>
          (case js_includes ''params.path'' p ''..'' of
             Inl e \<Rightarrow> (Inl e, tr)
           | Inr traversal \<Rightarrow>
               if traversal
               then (Inr \<lparr>success = False, message = ''Invalid path: Path traversal detected.''\<rparr>,
                     tr)
               else (case fs_readFile w tr p of
                       Inl e \<Rightarrow> (Inl e, tr @ [FsReadFile p])
                     | Inr content \<Rightarrow>
                         (Inr \<lparr>success = True, message = content\<rparr>, tr @ [FsReadFile p]))))"

definition readFile :: "platform \<Rightarrow> event list \<Rightarrow> jsval \<Rightarrow> ToolResponse \<times> event list" where
  "readFile w tr params =
     (case readFile_try w tr params of
        (Inl e, tr') \<Rightarrow>
          (\<lparr>success = False, message = ''Failed to read file: '' @ err_message e\<rparr>, tr')
      | (Inr r, tr') \<Rightarrow> (r, tr'))"

text \<open>The prompt of \<open>writeFile\<close>; it reads \<open>params.content\<close> as a string, and throws
  where it is none.\<close>

definition writeFile_confirmationMessage :: "jsval \<Rightarrow> jsval \<Rightarrow> js_error + string" where
  "writeFile_confirmationMessage p c =
     (case c of
        JString content \<Rightarrow>
          Inr (newline @ [CHR 0xE2, CHR 0x9A, CHR 0xA0, CHR 0xEF, CHR 0xB8, CHR 0x8F]
               @ '' Action Required: Attempting to write to file '' @ dquote @ js_to_string p
               @ dquote @ ''.'' @ newline @ ''   Content preview (first 100 chars):'' @ newline
               @ ''   '' @ dquote @ take 100 content
               @ (if length content > 100 then ''...'' else []) @ dquote @ newline @ newline
               @ ''Do you want to allow this write operation?'')
      | JUndefined \<Rightarrow> Inl (read_error ''undefined'' ''substring'')
      | JNull \<Rightarrow> Inl (read_error ''null'' ''substring'')
      | _ \<Rightarrow> Inl (TypeError ''params.content.substring is not a function''))"

text \<open>The part of \<open>writeFile\<close> that runs once the operator has approved.\<close>

definition writeFile_approved ::
  "platform \<Rightarrow> event list \<Rightarrow> jsval \<Rightarrow> jsval \<Rightarrow> (js_error + ToolResponse) \<times> event list" where
  "writeFile_approved w tr p c =
     (case path_dirname w p of
        Inl e \<Rightarrow> (Inl e, tr)
      | Inr dir \<Rightarrow>
          (case fs_mkdir w tr dir of
             Inl e \<Rightarrow> (Inl e, tr @ [FsMkdir dir])
           | Inr _ \<Rightarrow>
               (case fs_writeFile w (tr @ [FsMkdir dir]) p c of
                  Inl e \<Rightarrow> (Inl e, tr @ [FsMkdir dir, FsWriteFile p c])
                | Inr _ \<Rightarrow>
                    (Inr \<lparr>success = True,
                          message = ''Successfully wrote to file '' @ js_to_string p\<rparr>,
                     tr @ [FsMkdir dir, FsWriteFile p c]))))"

definition writeFile_try ::
  "platform \<Rightarrow> event list \<Rightarrow> jsval \<Rightarrow> (js_error + ToolResponse) \<times> event list" where
  "writeFile_try w tr params =
     (case get_prop params ''path'' of
        Inl e \<Rightarrow> (Inl e, tr)
      | Inr p \<Rightarrow>
          (case js_includes ''params.path'' p ''..'' of
             Inl e \<Rightarrow> (Inl e, tr)
           | Inr traversal \<Rightarrow>
               if traversal
               then (Inr \<lparr>success = False, message = ''Invalid path: Path traversal detected.''\<rparr>,
                     tr)
               else
                 (case get_prop params ''content'' of
                    Inl e \<Rightarrow> (Inl e, tr)
                  | Inr c \<Rightarrow>
                      (case writeFile_confirmationMessage p c of
                         Inl e \<Rightarrow> (Inl e, tr)
                       | Inr confirmationMessage \<Rightarrow>
                           (case askForUserApproval w tr confirmationMessage of
                              (Inl e, tr1) \<Rightarrow> (Inl e, tr1)
                            | (Inr isApproved, tr1) \<Rightarrow>
                                if \<not> isApproved
                                then (Inr \<lparr>success = False,
                                           message = ''Write operation cancelled by user.''\<rparr>, tr1)
                                else writeFile_approved w tr1 p c)))))"

definition writeFile :: "platform \<Rightarrow> event list \<Rightarrow> jsval \<Rightarrow> ToolResponse \<times> event list" where
  "writeFile w tr params =
     (case writeFile_try w tr params of
        (Inl e, tr') \<Rightarrow>
          (\<lparr>success = False, message = ''Failed to write file: '' @ err_message e\<rparr>, tr')
      | (Inr r, tr') \<Rightarrow> (r, tr'))"

definition askQuestion_try ::
  "platform \<Rightarrow> event list \<Rightarrow> jsval \<Rightarrow> (js_error + ToolResponse) \<times> event list" where
  "askQuestion_try w tr params =
     (case get_prop params ''question'' of
        Inl e \<Rightarrow> (Inl e, tr)
      | Inr q \<Rightarrow>
          (let prompt = newline @ ''Question: '' @ js_to_string q @ newline @ ''Answer: '' in
           case rl_question w tr prompt of
             Inl e \<Rightarrow> (Inl e, tr @ [RlQuestion prompt])
           | Inr answer \<Rightarrow>
               (Inr \<lparr>success = True, message = ''User answer: '' @ answer\<rparr>,
                tr @ [RlQuestion prompt])))"

definition askQuestion :: "platform \<Rightarrow> event list \<Rightarrow> jsval \<Rightarrow> ToolResponse \<times> event list" where
  "askQuestion w tr params =
     (case askQuestion_try w tr params of
        (Inl e, tr') \<Rightarrow>
          (\<lparr>success = False, message = ''Failed to ask question: '' @ err_message e\<rparr>, tr')
      | (Inr r, tr') \<Rightarrow> (r, tr'))"

definition executeCommand_confirmationMessage :: "jsval \<Rightarrow> string" where
  "executeCommand_confirmationMessage c =
     newline @ [CHR 0xE2, CHR 0x98, CHR 0xA2, CHR 0xEF, CHR 0xB8, CHR 0x8F]
     @ '' Action Required: Attempting to execute the following command:'' @ newline @ newline
     @ ''   '' @ js_to_string c @ newline @ newline
     @ ''Do you want to allow this command execution?''"

definition executeCommand_try ::
  "platform \<Rightarrow> event list \<Rightarrow> jsval \<Rightarrow> (js_error + ToolResponse) \<times> event list" where
  "executeCommand_try w tr params =
     (case get_prop params ''command'' of
        Inl e \<Rightarrow> (Inl e, tr)
      | Inr c \<Rightarrow>
          (case askForUserApproval w tr (executeCommand_confirmationMessage c) of
             (Inl e, tr1) \<Rightarrow> (Inl e, tr1)
           | (Inr isApproved, tr1) \<Rightarrow>
               if \<not> isApproved
               then (Inr \<lparr>success = False,
                          message = ''Command execution cancelled by user.''\<rparr>, tr1)
               else
                 (case execAsync w tr1 c of
                    Inl e \<Rightarrow> (Inl e, tr1 @ [ChildExec c])
                  | Inr (stdout, stderr) \<Rightarrow>
                      (Inr \<lparr>success = True,
                            message = ''Command executed successfully.''
                              @ (if stdout \<noteq> [] then newline @ ''Output:'' @ newline @ stdout
                                 else [])\<rparr>,
                       tr1 @ [ChildExec c]))))"

definition executeCommand ::
  "platform \<Rightarrow> event list \<Rightarrow> jsval \<Rightarrow> ToolResponse \<times> event list" where
  "executeCommand w tr params =
     (case executeCommand_try w tr params of
        (Inl e, tr') \<Rightarrow>
          (\<lparr>success = False,
            message = ''Failed to execute command: '' @ err_message e @ newline
              @ (if err_stderr e \<noteq> [] then ''Stderr: '' @ err_stderr e @ newline else [])
              @ (if err_stdout e \<noteq> [] then ''Stdout: '' @ err_stdout e else [])\<rparr>, tr')
      | (Inr r, tr') \<Rightarrow> (r, tr'))"

text \<open>\<open>complete\<close> has no \<open>try\<close>: reading \<open>params.result\<close> is its only way to throw.\<close>

definition complete :: "jsval \<Rightarrow> js_error + ToolResponse" where
  "complete params =
     (case get_prop params ''result'' of
        Inl e \<Rightarrow> Inl e
      | Inr r \<Rightarrow> Inr \<lparr>success = True, message = ''Task completed: '' @ js_to_string r\<rparr>)"

section \<open>Decoding and dispatch (parser.ts)\<close>

definition fence :: string where
  "fence = [CHR 0x60, CHR 0x60, CHR 0x60]"

text \<open>\<open>replace(/^```(?:xml)?\s*/i, '')\<close>: an opening fence, an optional \<open>xml\<close> in any
  letter case, and the white space after it.\<close>

definition strip_opening_fence :: "string \<Rightarrow> string" where
  "strip_opening_fence s =
     (if startsWith s fence
      then (let r = drop 3 s;
                r' = (if startsWith (toLowerCase r) ''xml'' then drop 3 r else r)
            in dropWhile is_space r')
      else s)"

text \<open>\<open>replace(/```\s*$/, '')\<close>: the leftmost fence that only white space follows, and
  that white space.\<close>

fun strip_closing_fence :: "string \<Rightarrow> string" where
  "strip_closing_fence [] = []"
| "strip_closing_fence (c # cs) =
     (if startsWith (c # cs) fence \<and> list_all is_space (drop 3 (c # cs)) then []
      else c # strip_closing_fence cs)"

definition cleanResponse :: "string \<Rightarrow> string" where
  "cleanResponse llmResponse =
     trim (strip_closing_fence (strip_opening_fence (trim llmResponse)))"

text \<open>The class \<open>[a-z_]\<close>.\<close>

definition is_name_char :: "char \<Rightarrow> bool" where
  "is_name_char c = (c \<in> set ''abcdefghijklmnopqrstuvwxyz_'')"

text \<open>
  \<open>cleanedResponse.match(/<([a-z_]+)>/)\<close>, giving \<open>match[1]\<close> of the leftmost match. After
  a \<open><\<close> the greedy \<open>+\<close> takes the whole run of name characters, and no shorter run can be
  followed by \<open>>\<close>, so a position matches when the run is not empty and \<open>>\<close> follows it.
\<close>

fun toolNameMatch :: "string \<Rightarrow> string option" where
  "toolNameMatch [] = None"
| "toolNameMatch (c # cs) =
     (if c = CHR ''<'' \<and> takeWhile is_name_char cs \<noteq> []
         \<and> startsWith (dropWhile is_name_char cs) ''>''
      then Some (takeWhile is_name_char cs)
      else toolNameMatch cs)"

record tool_result =
  response :: ToolResponse
  toolType :: "string option"
  isComplete :: bool

text \<open>The three early returns of \<open>parseAndExecuteTool\<close> and its \<open>catch\<close> have this shape.\<close>

definition failure :: "string \<Rightarrow> tool_result" where
  "failure m = \<lparr>response = \<lparr>success = False, message = m\<rparr>, toolType = None, isComplete = False\<rparr>"

definition caught :: "js_error \<Rightarrow> tool_result" where
  "caught e = failure (''Error processing tool response: '' @ err_message e)"

text \<open>
  Steps 1 and 2 of \<open>parseAndExecuteTool\<close>: clean the text, find the tool name, parse the
  whole text and take \<open>parsedXml[toolType] || {}\<close>. \<open>parseStringPromise\<close> (xml2js, called
  with \<open>explicitArray: false\<close>, \<open>trim: true\<close> and lower-casing name processors) is the
  environment's.
\<close>

definition decodeInvocation :: "platform \<Rightarrow> string \<Rightarrow> tool_result + (string \<times> jsval)" where
  "decodeInvocation w llmResponse =
     (let cleanedResponse = cleanResponse llmResponse in
      if cleanedResponse = [] then Inl (failure ''Cleaned response is empty.'')
      else
        (case toolNameMatch cleanedResponse of
           None \<Rightarrow> Inl (failure ''No valid tool tag found in the cleaned response.'')
         | Some name \<Rightarrow>
             (case parseStringPromise w cleanedResponse of
                Inl e \<Rightarrow> Inl (caught e)
              | Inr parsedXml \<Rightarrow>
                  (case get_prop parsedXml name of
                     Inl e \<Rightarrow> Inl (caught e)
                   | Inr v \<Rightarrow> Inr (name, if truthy v then v else JObject [])))))"

definition finished :: "string \<Rightarrow> ToolResponse \<times> event list \<Rightarrow> tool_result \<times> event list" where
  "finished name out =
     (\<lparr>response = fst out, toolType = Some name, isComplete = (name = Complete)\<rparr>, snd out)"

text \<open>Steps 3 and 4: the \<open>switch\<close> and the final \<open>return\<close>.\<close>

definition executeTool ::
  "platform \<Rightarrow> event list \<Rightarrow> string \<Rightarrow> jsval \<Rightarrow> tool_result \<times> event list" where
  "executeTool w tr name params =
     (if name = ListFile then finished name (listFile w tr params)
      else if name = ReadFile then finished name (readFile w tr params)
      else if name = WriteFile then finished name (writeFile w tr params)
      else if name = AskQuestion then finished name (askQuestion w tr params)
      else if name = ExecuteCommand then finished name (executeCommand w tr params)
      else if name = Complete then
        (case complete params of
           Inl e \<Rightarrow> (caught e, tr)
         | Inr r \<Rightarrow> finished name (r, tr))
      else (\<lparr>response = \<lparr>success = False, message = ''Unknown tool type: '' @ name\<rparr>,
             toolType = Some name, isComplete = False\<rparr>, tr))"

definition parseAndExecuteTool ::
  "platform \<Rightarrow> event list \<Rightarrow> string \<Rightarrow> tool_result \<times> event list" where
  "parseAndExecuteTool w tr llmResponse =
     (case decodeInvocation w llmResponse of
        Inl r \<Rightarrow> (r, tr)
      | Inr (name, params) \<Rightarrow> executeTool w tr name params)"

section \<open>The session loop (main.ts)\<close>

definition maxTurns :: nat where
  "maxTurns = 15"

datatype role = User | Model

text \<open>
  The variables of \<open>main\<close> that the loop reads and writes, the messages passed to
  \<open>chat.sendMessage\<close> so far (\<open>sent\<close>), and the I/O events so far.
\<close>

record loop_state =
  main_isComplete :: bool
  turns :: nat
  messageToSend :: "string option"
  chatHistoryLog :: "(role \<times> string) list"
  sent :: "string list"
  events :: "event list"

text \<open>The \<open>catch\<close> of a turn.\<close>

definition catch_turn :: "js_error \<Rightarrow> loop_state \<Rightarrow> loop_state" where
  "catch_turn e s =
     (if str_includes (err_message e) ''SAFETY'' then s\<lparr>main_isComplete := True\<rparr>
      else
        (let errorMessageForLLM = ''[SYSTEM Error] An error occurred: '' @ err_message e
               @ ''. Please analyze the error and previous steps, then decide the next best tool to use or use the complete tool if the task is impossible.''
         in s\<lparr>messageToSend := Some errorMessageForLLM,
               chatHistoryLog := chatHistoryLog s @ [(User, errorMessageForLLM)]\<rparr>))"

definition emptyResponseMessage :: string where
  "emptyResponseMessage = ''[SYSTEM] Received empty response from model. Please check previous steps and try again, outputting a valid XML tool.''"

text \<open>What a turn does with a non-empty response text.\<close>

definition use_response :: "platform \<Rightarrow> string \<Rightarrow> loop_state \<Rightarrow> loop_state" where
  "use_response w assistantResponseText s =
     (let s1 = s\<lparr>chatHistoryLog := chatHistoryLog s @ [(Model, assistantResponseText)]\<rparr>;
          out = parseAndExecuteTool w (events s1) assistantResponseText;
          r = fst out;
          s2 = s1\<lparr>events := snd out, main_isComplete := isComplete r\<rparr>
      in if \<not> isComplete r then
           (let toolResultPrefix =
                  (case toolType r of Some t \<Rightarrow> ''['' @ t @ '' Result]''
                                     | None \<Rightarrow> ''[Execution Result]'');
                resultStatus = (if success (response r) then ''Success'' else ''Failure'');
                m = toolResultPrefix @ '' '' @ resultStatus @ '':'' @ newline
                    @ message (response r)
            in s2\<lparr>messageToSend := Some m, chatHistoryLog := chatHistoryLog s2 @ [(User, m)]\<rparr>)
         else s2\<lparr>messageToSend := None\<rparr>)"

text \<open>One pass through the loop body with \<open>messageToSend = m\<close>; the flag is \<open>break\<close>.\<close>

definition turn :: "platform \<Rightarrow> string \<Rightarrow> loop_state \<Rightarrow> loop_state \<times> bool" where
  "turn w m s0 =
     (let s = s0\<lparr>turns := turns s0 + 1, sent := sent s0 @ [m]\<rparr> in
      case sendMessage w (sent s0) m of
        Inl e \<Rightarrow> (catch_turn e s, False)
      | Inr r \<Rightarrow>
          if response_text r = [] then
            (if finishReason r = Some ''SAFETY'' \<or> finishReason r = Some ''RECITATION''
                \<or> finishReason r = Some ''OTHER''
             then (s, True)
             else (s\<lparr>messageToSend := Some emptyResponseMessage,
                     chatHistoryLog := chatHistoryLog s
                       @ [(Model, ''<error>Empty response</error>''),
                          (User, emptyResponseMessage)]\<rparr>, False))
          else (use_response w (response_text r) s, False))"

text \<open>\<open>while (!isComplete && turns < maxTurns && messageToSend !== null)\<close>.\<close>

function main_loop :: "platform \<Rightarrow> loop_state \<Rightarrow> loop_state" where
  "main_loop w s =
     (case messageToSend s of
        None \<Rightarrow> s
      | Some m \<Rightarrow>
          if \<not> main_isComplete s \<and> turns s < maxTurns
          then (if snd (turn w m s) then fst (turn w m s) else main_loop w (fst (turn w m s)))
          else s)"
  by pat_completeness auto
termination
  by (relation "measure (\<lambda>(w, s). maxTurns - turns s)")
     (auto simp: turn_def catch_turn_def use_response_def Let_def split: sum.splits)

declare main_loop.simps [simp del]

text \<open>The closing report: the three messages printed after the loop.\<close>

datatype report = ReachedMaximumTurns | TaskCompleted | StoppedUnexpectedly

definition final_report :: "loop_state \<Rightarrow> report" where
  "final_report s =
     (if turns s \<ge> maxTurns then ReachedMaximumTurns
      else if main_isComplete s then TaskCompleted
      else StoppedUnexpectedly)"

definition initial_state :: "string \<Rightarrow> event list \<Rightarrow> loop_state" where
  "initial_state userTask tr =
     \<lparr>main_isComplete = False, turns = 0, messageToSend = Some userTask,
      chatHistoryLog = [(User, userTask)], sent = [], events = tr\<rparr>"

text \<open>
  \<open>main\<close>: ask for the task, run the loop, report, and close the terminal in \<open>finally\<close>.
  When the first question fails the promise of \<open>main\<close> is rejected (\<open>Inl\<close>) and the
  process exits with status 1.
\<close>

definition main :: "platform \<Rightarrow> (js_error + report \<times> loop_state) \<times> event list" where
  "main w =
     (case rl_question w [] ''Task: '' of
        Inl e \<Rightarrow> (Inl e, [RlQuestion ''Task: '', RlClose])
      | Inr userTask \<Rightarrow>
          (let s = main_loop w (initial_state userTask [RlQuestion ''Task: ''])
           in (Inr (final_report s, s), events s @ [RlClose])))"

text \<open>What a run of \<open>main\<close> shows: the closing report (none when \<open>main\<close> was rejected)
  and the number of calls of \<open>chat.sendMessage\<close>.\<close>

definition session_report :: "platform \<Rightarrow> report option" where
  "session_report w = (case fst (main w) of Inl e \<Rightarrow> None | Inr (rep, s) \<Rightarrow> Some rep)"

definition model_calls :: "platform \<Rightarrow> nat" where
  "model_calls w = (case fst (main w) of Inl e \<Rightarrow> 0 | Inr (rep, s) \<Rightarrow> length (sent s))"

text \<open>The values of \<open>ToolType\<close>.\<close>

definition toolTypes :: "string list" where
  "toolTypes = [ListFile, ReadFile, WriteFile, AskQuestion, ExecuteCommand, Complete]"

text \<open>
  The action blocks that can be recognised in a text, in the words of the specification:
  every match of the tool-name pattern whose name is one of the six tools.
\<close>

fun tag_names :: "string \<Rightarrow> string list" where
  "tag_names [] = []"
| "tag_names (c # cs) =
     (if c = CHR ''<'' \<and> takeWhile is_name_char cs \<noteq> []
         \<and> startsWith (dropWhile is_name_char cs) ''>''
      then takeWhile is_name_char cs # tag_names cs
      else tag_names cs)"

definition action_blocks :: "string \<Rightarrow> string list" where
  "action_blocks s = filter (\<lambda>n. n \<in> set toolTypes) (tag_names s)"

section \<open>Side effects and example environments\<close>

text \<open>The events that change the file system or start a process.\<close>

fun is_side_effect :: "event \<Rightarrow> bool" where
  "is_side_effect (FsMkdir d) = True"
| "is_side_effect (FsWriteFile p c) = True"
| "is_side_effect (ChildExec c) = True"
| "is_side_effect e = False"

text \<open>
  An environment in which the operator answers \<open>y\<close> to everything, the file system and
  the shell succeed, the XML parser rejects every text and the model returns empty
  responses. The other example environments change one answer of it.
\<close>

definition example_platform :: platform where
  "example_platform =
     \<lparr>rl_question = (\<lambda>tr q. Inr ''y''),
      fs_readdir = (\<lambda>tr p r. Inr []),
      fs_readFile = (\<lambda>tr p. Inr ''hello''),
      path_dirname = (\<lambda>p. Inr ''.''),
      fs_mkdir = (\<lambda>tr d. Inr ()),
      fs_writeFile = (\<lambda>tr p c. Inr ()),
      execAsync = (\<lambda>tr c. Inr (''out'', [])),
      parseStringPromise = (\<lambda>s. Inl (Error ''Unclosed root tag'' [] [])),
      sendMessage = (\<lambda>h m. Inr \<lparr>response_text = [], finishReason = Some ''STOP''\<rparr>)\<rparr>"

definition padded_yes_platform :: platform where
  "padded_yes_platform = example_platform\<lparr>rl_question := (\<lambda>tr q. Inr '' y '')\<rparr>"

definition refusing_platform :: platform where
  "refusing_platform = example_platform\<lparr>rl_question := (\<lambda>tr q. Inr ''n'')\<rparr>"

definition hello_params :: jsval where
  "hello_params =
     JObject [(''path'', JString ''hello.txt''), (''content'', JString ''Hello World!'')]"

text \<open>The confirmation message that \<open>writeFile\<close> builds for \<open>hello_params\<close>.\<close>

definition hello_confirmation :: string where
  "hello_confirmation =
     newline @ [CHR 0xE2, CHR 0x9A, CHR 0xA0, CHR 0xEF, CHR 0xB8, CHR 0x8F]
     @ '' Action Required: Attempting to write to file '' @ dquote @ ''hello.txt'' @ dquote
     @ ''.'' @ newline @ ''   Content preview (first 100 chars):'' @ newline
     @ ''   '' @ dquote @ ''Hello World!'' @ dquote @ newline @ newline
     @ ''Do you want to allow this write operation?''"

definition passwd_params :: jsval where
  "passwd_params =
     JObject [(''path'', JString ''../etc/passwd''), (''content'', JString ''x'')]"

definition ls_params :: jsval where
  "ls_params = JObject [(''command'', JString ''ls''), (''requires_approval'', JString ''false'')]"

definition path_only_params :: jsval where
  "path_only_params = JObject [(''path'', JString ''hello.txt'')]"

definition empty_params :: jsval where
  "empty_params = JObject []"

text \<open>The model answers every message with an unknown tool, in the two XML forms.\<close>

definition unknown_tool_platform :: platform where
  "unknown_tool_platform = example_platform
     \<lparr>parseStringPromise := (\<lambda>s. Inr (JObject [(''unknown_tool'', JString [])])),
      sendMessage := (\<lambda>h m. Inr \<lparr>response_text = ''<unknown_tool></unknown_tool>'',
                                    finishReason = Some ''STOP''\<rparr>)\<rparr>"

definition self_closing_platform :: platform where
  "self_closing_platform = unknown_tool_platform
     \<lparr>sendMessage := (\<lambda>h m. Inr \<lparr>response_text = ''<unknown_tool/>'',
                                    finishReason = Some ''STOP''\<rparr>)\<rparr>"

text \<open>
  The parser answers with a \<open>read_file\<close> block, as xml2js does for each of the texts
  below: it lower-cases element names, and it reports the first root element when that
  closes.
\<close>

definition read_file_platform :: platform where
  "read_file_platform = example_platform
     \<lparr>parseStringPromise :=
        (\<lambda>s. Inr (JObject [(''read_file'', JObject [(''path'', JString ''a.txt'')])]))\<rparr>"

definition two_blocks_response :: string where
  "two_blocks_response =
     ''<read_file><path>a.txt</path></read_file><execute_command><command>ls</command></execute_command>''"

text \<open>A well-formed text with one action block inside another, and the object that the
  parser builds for it.\<close>

definition nested_blocks_response :: string where
  "nested_blocks_response =
     ''<read_file><path>a.txt</path><execute_command><command>ls</command></execute_command></read_file>''"

definition nested_platform :: platform where
  "nested_platform = example_platform
     \<lparr>parseStringPromise :=
        (\<lambda>s. Inr (JObject [(''read_file'',
           JObject [(''path'', JString ''a.txt''),
                    (''execute_command'', JObject [(''command'', JString ''ls'')])])]))\<rparr>"

definition fenced_response :: string where
  "fenced_response =
     fence @ ''xml'' @ newline @ ''<read_file><path>a.txt</path></read_file>'' @ newline @ fence"

text \<open>The two ways in which the model transport reports a safety block.\<close>

definition safety_fault_platform :: platform where
  "safety_fault_platform = example_platform
     \<lparr>sendMessage := (\<lambda>h m. Inl (Error ''Candidate was blocked due to SAFETY'' [] []))\<rparr>"

definition safety_block_platform :: platform where
  "safety_block_platform = example_platform
     \<lparr>sendMessage := (\<lambda>h m. Inr \<lparr>response_text = [], finishReason = Some ''SAFETY''\<rparr>)\<rparr>"

section \<open>Properties of a turn\<close>

lemma turns_catch_turn: "turns (catch_turn e s) = turns s"
  by (simp add: catch_turn_def Let_def)

lemma turns_use_response: "turns (use_response w t s) = turns s"
  by (simp add: use_response_def Let_def)

lemma turns_turn: "turns (fst (turn w m s)) = Suc (turns s)"
  by (simp add: turn_def Let_def turns_catch_turn turns_use_response split: sum.splits)


section \<open>The approval gate\<close>

lemma toLowerCase_char_y: "toLowerCase_char c = CHR ''y'' \<longleftrightarrow> c = CHR ''y'' \<or> c = CHR ''Y''"
  by (simp add: toLowerCase_char_def)

lemma toLowerCase_y: "toLowerCase s = ''y'' \<longleftrightarrow> s = ''y'' \<or> s = ''Y''"
  by (cases s) (auto simp: toLowerCase_def toLowerCase_char_y)

lemma snd_askForUserApproval:
  "snd (askForUserApproval w tr q) = tr @ [RlQuestion (q @ '' [y/n]: '')]"
  by (simp add: askForUserApproval_def Let_def split: sum.splits)

text \<open>
  C4 (amended). The gate prints the message followed by \<open> [y/n]: \<close>, reads one line and
  returns true exactly when that line is \<open>y\<close> or \<open>Y\<close>. The line is not trimmed, and there
  is one prompt only: no retry.
\<close>

theorem approval_gate_exact:
  assumes "rl_question w tr (q @ '' [y/n]: '') = Inr answer"
  shows "askForUserApproval w tr q =
    (Inr (answer = ''y'' \<or> answer = ''Y''), tr @ [RlQuestion (q @ '' [y/n]: '')])"
  using assms by (simp add: askForUserApproval_def Let_def toLowerCase_y)

theorem approval_gate_exact_witness:
  "rl_question example_platform [] (''Proceed?'' @ '' [y/n]: '') = Inr ''y''
   \<and> askForUserApproval example_platform [] ''Proceed?''
       = (Inr True, [RlQuestion ''Proceed? [y/n]: ''])"
proof -
  have h: "rl_question example_platform [] (''Proceed?'' @ '' [y/n]: '') = Inr ''y''"
    by (simp add: example_platform_def)
  show ?thesis using h approval_gate_exact [OF h] by simp
qed

text \<open>
  C4 as stated fails: the line \<open> y \<close> trims and lower-cases to \<open>y\<close>, and the gate
  rejects it.
\<close>

theorem approval_gate_no_trim:
  "rl_question padded_yes_platform [] ''Proceed? [y/n]: '' = Inr '' y ''
   \<and> trim (toLowerCase '' y '') = ''y''
   \<and> fst (askForUserApproval padded_yes_platform [] ''Proceed?'') = Inr False"
  by (simp add: padded_yes_platform_def example_platform_def askForUserApproval_def
      trim_def is_space_def toLowerCase_def toLowerCase_char_def)

section \<open>Path traversal\<close>

text \<open>
  C2. A \<open>read_file\<close> or \<open>write_file\<close> whose path is a string containing \<open>..\<close> returns the
  unsuccessful response \<open>Invalid path: Path traversal detected.\<close> and leaves the events as
  they were: no file is read or written and the operator is not prompted.
\<close>

theorem traversal_rejected_before_io:
  assumes "get_prop params ''path'' = Inr (JString p)" and "str_includes p ''..''"
  shows "readFile w tr params =
           (\<lparr>success = False, message = ''Invalid path: Path traversal detected.''\<rparr>, tr)
       \<and> writeFile w tr params =
           (\<lparr>success = False, message = ''Invalid path: Path traversal detected.''\<rparr>, tr)"
  using assms
  by (simp add: readFile_def readFile_try_def writeFile_def writeFile_try_def js_includes_def)

theorem traversal_rejected_before_io_witness:
  "get_prop passwd_params ''path'' = Inr (JString ''../etc/passwd'')
   \<and> str_includes ''../etc/passwd'' ''..''
   \<and> readFile example_platform [] passwd_params
       = (\<lparr>success = False, message = ''Invalid path: Path traversal detected.''\<rparr>, [])
   \<and> writeFile example_platform [] passwd_params
       = (\<lparr>success = False, message = ''Invalid path: Path traversal detected.''\<rparr>, [])"
proof -
  have h1: "get_prop passwd_params ''path'' = Inr (JString ''../etc/passwd'')"
    by (simp add: passwd_params_def get_prop_def)
  have h2: "str_includes ''../etc/passwd'' ''..''"
    by simp
  show ?thesis using h1 h2 traversal_rejected_before_io [OF h1 h2] by simp
qed

section \<open>Approval before side effects\<close>

lemma writeFile_approved_events:
  "\<exists>new. snd (writeFile_approved w tr p c) = tr @ new"
  by (simp add: writeFile_approved_def split: sum.splits)

lemma writeFile_gated:
  "\<exists>new. snd (writeFile w tr params) = tr @ new \<and>
     (list_ex is_side_effect new \<longrightarrow>
       (\<exists>p c m rest. get_prop params ''path'' = Inr p \<and> get_prop params ''content'' = Inr c
          \<and> writeFile_confirmationMessage p c = Inr m
          \<and> fst (askForUserApproval w tr m) = Inr True
          \<and> new = RlQuestion (m @ '' [y/n]: '') # rest))"
proof (cases "writeFile_try w tr params")
  case (Pair r tr')
  show ?thesis
  proof (cases "get_prop params ''path''")
    case (Inl e)
    then show ?thesis by (simp add: writeFile_def writeFile_try_def)
  next
    case p: (Inr p)
    show ?thesis
    proof (cases "js_includes ''params.path'' p ''..''")
      case (Inl e)
      then show ?thesis using p by (simp add: writeFile_def writeFile_try_def)
    next
      case t: (Inr t)
      show ?thesis
      proof (cases t)
        case True
        then show ?thesis using p t by (simp add: writeFile_def writeFile_try_def)
      next
        case False
        show ?thesis
        proof (cases "get_prop params ''content''")
          case (Inl e)
          then show ?thesis using p t False by (simp add: writeFile_def writeFile_try_def)
        next
          case c: (Inr c)
          show ?thesis
          proof (cases "writeFile_confirmationMessage p c")
            case (Inl e)
            then show ?thesis using p t False c by (simp add: writeFile_def writeFile_try_def)
          next
            case m: (Inr m)
            obtain a tr1 where a: "askForUserApproval w tr m = (a, tr1)" by (cases "askForUserApproval w tr m")
            have tr1: "tr1 = tr @ [RlQuestion (m @ '' [y/n]: '')]"
              using a snd_askForUserApproval[of w tr m] by simp
            show ?thesis
            proof (cases a)
              case (Inl e)
              then show ?thesis using p t False c m a tr1 by (simp add: writeFile_def writeFile_try_def)
            next
              case b: (Inr b)
              show ?thesis
              proof (cases b)
                case True
                obtain new where "snd (writeFile_approved w tr1 p c) = tr1 @ new"
                  using writeFile_approved_events by blast
                then show ?thesis using p t False c m a tr1 b True
                  by (cases "writeFile_approved w tr1 p c") (auto simp add: writeFile_def writeFile_try_def split: sum.splits)
              next
                case nb: False
                then show ?thesis using p t False c m a tr1 b by (simp add: writeFile_def writeFile_try_def)
              qed
            qed
          qed
        qed
      qed
    qed
  qed
qed


lemma executeCommand_gated:
  "\<exists>new. snd (executeCommand w tr params) = tr @ new \<and>
     (list_ex is_side_effect new \<longrightarrow>
       (\<exists>c rest. get_prop params ''command'' = Inr c
          \<and> fst (askForUserApproval w tr (executeCommand_confirmationMessage c)) = Inr True
          \<and> new = RlQuestion (executeCommand_confirmationMessage c @ '' [y/n]: '') # rest))"
proof (cases "get_prop params ''command''")
  case (Inl e)
  then show ?thesis by (simp add: executeCommand_def executeCommand_try_def)
next
  case c: (Inr c)
  let ?m = "executeCommand_confirmationMessage c"
  obtain a tr1 where a: "askForUserApproval w tr ?m = (a, tr1)"
    by (cases "askForUserApproval w tr ?m")
  have tr1: "tr1 = tr @ [RlQuestion (?m @ '' [y/n]: '')]"
    using a snd_askForUserApproval[of w tr ?m] by simp
  show ?thesis using c a tr1
    by (auto simp add: executeCommand_def executeCommand_try_def split: sum.splits)
qed

lemma writeFile_rejected:
  assumes "get_prop params ''path'' = Inr p" and "js_includes ''params.path'' p ''..'' = Inr False"
    and "get_prop params ''content'' = Inr c" and "writeFile_confirmationMessage p c = Inr m"
    and "fst (askForUserApproval w tr m) = Inr False"
  shows "writeFile w tr params =
    (\<lparr>success = False, message = ''Write operation cancelled by user.''\<rparr>,
     tr @ [RlQuestion (m @ '' [y/n]: '')])"
proof -
  have "askForUserApproval w tr m = (Inr False, tr @ [RlQuestion (m @ '' [y/n]: '')])"
    using assms(5) snd_askForUserApproval[of w tr m] by (cases "askForUserApproval w tr m") simp
  then show ?thesis using assms(1-4) by (simp add: writeFile_def writeFile_try_def)
qed

lemma executeCommand_rejected:
  assumes "get_prop params ''command'' = Inr c"
    and "fst (askForUserApproval w tr (executeCommand_confirmationMessage c)) = Inr False"
  shows "executeCommand w tr params =
    (\<lparr>success = False, message = ''Command execution cancelled by user.''\<rparr>,
     tr @ [RlQuestion (executeCommand_confirmationMessage c @ '' [y/n]: '')])"
proof -
  let ?m = "executeCommand_confirmationMessage c"
  have "askForUserApproval w tr ?m = (Inr False, tr @ [RlQuestion (?m @ '' [y/n]: '')])"
    using assms(2) snd_askForUserApproval[of w tr ?m] by (cases "askForUserApproval w tr ?m") simp
  then show ?thesis using assms(1) by (simp add: executeCommand_def executeCommand_try_def)
qed

text \<open>
  C1. Whatever \<open>writeFile\<close> and \<open>executeCommand\<close> add to the events, a directory creation,
  a file write or a command can only be among it when the approval gate, asked about the
  path and content (or the command) of this very invocation, returned true, and the prompt
  is then the first new event. When the gate returns false the response is the
  \<open>cancelled by user\<close> one and the prompt is the only new event.
\<close>

theorem side_effects_need_approval:
  "(\<exists>new. snd (writeFile w tr params) = tr @ new \<and>
     (list_ex is_side_effect new \<longrightarrow>
       (\<exists>p c m rest. get_prop params ''path'' = Inr p \<and> get_prop params ''content'' = Inr c
          \<and> writeFile_confirmationMessage p c = Inr m
          \<and> fst (askForUserApproval w tr m) = Inr True
          \<and> new = RlQuestion (m @ '' [y/n]: '') # rest)))
   \<and> (\<exists>new. snd (executeCommand w tr params) = tr @ new \<and>
     (list_ex is_side_effect new \<longrightarrow>
       (\<exists>c rest. get_prop params ''command'' = Inr c
          \<and> fst (askForUserApproval w tr (executeCommand_confirmationMessage c)) = Inr True
          \<and> new = RlQuestion (executeCommand_confirmationMessage c @ '' [y/n]: '') # rest)))
   \<and> (\<forall>p c m. get_prop params ''path'' = Inr p
          \<and> js_includes ''params.path'' p ''..'' = Inr False
          \<and> get_prop params ''content'' = Inr c \<and> writeFile_confirmationMessage p c = Inr m
          \<and> fst (askForUserApproval w tr m) = Inr False \<longrightarrow>
        writeFile w tr params =
          (\<lparr>success = False, message = ''Write operation cancelled by user.''\<rparr>,
           tr @ [RlQuestion (m @ '' [y/n]: '')]))
   \<and> (\<forall>c. get_prop params ''command'' = Inr c
          \<and> fst (askForUserApproval w tr (executeCommand_confirmationMessage c)) = Inr False \<longrightarrow>
        executeCommand w tr params =
          (\<lparr>success = False, message = ''Command execution cancelled by user.''\<rparr>,
           tr @ [RlQuestion (executeCommand_confirmationMessage c @ '' [y/n]: '')]))"
  using writeFile_gated [of w tr params] executeCommand_gated [of w tr params]
    writeFile_rejected [of params _ _ _ w tr] executeCommand_rejected [of params _ w tr]
  by blast

theorem side_effects_need_approval_witness:
  "list_ex is_side_effect (snd (writeFile example_platform [] hello_params))
   \<and> writeFile_confirmationMessage (JString ''hello.txt'') (JString ''Hello World!'')
       = Inr hello_confirmation
   \<and> fst (askForUserApproval example_platform [] hello_confirmation) = Inr True
   \<and> list_ex is_side_effect (snd (executeCommand example_platform [] ls_params))
   \<and> fst (askForUserApproval example_platform []
            (executeCommand_confirmationMessage (JString ''ls''))) = Inr True
   \<and> fst (askForUserApproval refusing_platform [] hello_confirmation) = Inr False
   \<and> fst (writeFile refusing_platform [] hello_params)
       = \<lparr>success = False, message = ''Write operation cancelled by user.''\<rparr>
   \<and> \<not> list_ex is_side_effect (snd (writeFile refusing_platform [] hello_params))
   \<and> fst (askForUserApproval refusing_platform []
            (executeCommand_confirmationMessage (JString ''ls''))) = Inr False
   \<and> fst (executeCommand refusing_platform [] ls_params)
       = \<lparr>success = False, message = ''Command execution cancelled by user.''\<rparr>
   \<and> \<not> list_ex is_side_effect (snd (executeCommand refusing_platform [] ls_params))"
proof -
  have w: "list_ex is_side_effect (snd (writeFile example_platform [] hello_params))"
    by (simp add: writeFile_def writeFile_try_def writeFile_approved_def
        writeFile_confirmationMessage_def askForUserApproval_def example_platform_def
        hello_params_def get_prop_def js_includes_def toLowerCase_def toLowerCase_char_def)
  have x: "list_ex is_side_effect (snd (executeCommand example_platform [] ls_params))"
    by (simp add: executeCommand_def executeCommand_try_def askForUserApproval_def
        example_platform_def ls_params_def get_prop_def toLowerCase_def toLowerCase_char_def)
  have p: "get_prop hello_params ''path'' = Inr (JString ''hello.txt'')"
    and c: "get_prop hello_params ''content'' = Inr (JString ''Hello World!'')"
    and l: "get_prop ls_params ''command'' = Inr (JString ''ls'')"
    by (simp_all add: hello_params_def ls_params_def get_prop_def)
  have i: "js_includes ''params.path'' (JString ''hello.txt'') ''..'' = Inr False"
    by (simp add: js_includes_def)
  have m: "writeFile_confirmationMessage (JString ''hello.txt'') (JString ''Hello World!'')
      = Inr hello_confirmation"
    by (simp add: writeFile_confirmationMessage_def hello_confirmation_def)
  have n: "fst (askForUserApproval refusing_platform [] q) = Inr False" for q
    by (simp add: askForUserApproval_def refusing_platform_def example_platform_def
        toLowerCase_def toLowerCase_char_def)
  from side_effects_need_approval [of example_platform "[]" hello_params] w p c m
  have a1: "fst (askForUserApproval example_platform [] hello_confirmation) = Inr True"
    by auto
  from side_effects_need_approval [of example_platform "[]" ls_params] x l
  have a2: "fst (askForUserApproval example_platform []
      (executeCommand_confirmationMessage (JString ''ls''))) = Inr True"
    by auto
  from side_effects_need_approval [of refusing_platform "[]" hello_params] p c i m n
  have r1: "writeFile refusing_platform [] hello_params =
      (\<lparr>success = False, message = ''Write operation cancelled by user.''\<rparr>,
       [] @ [RlQuestion (hello_confirmation @ '' [y/n]: '')])"
    by blast
  from side_effects_need_approval [of refusing_platform "[]" ls_params] l n
  have r2: "executeCommand refusing_platform [] ls_params =
      (\<lparr>success = False, message = ''Command execution cancelled by user.''\<rparr>,
       [] @ [RlQuestion (executeCommand_confirmationMessage (JString ''ls'') @ '' [y/n]: '')])"
    by blast
  show ?thesis using w x m a1 a2 n r1 r2 by simp
qed

section \<open>The unused \<open>requires_approval\<close> parameter\<close>

text \<open>
  C10. \<open>executeCommand\<close> reads \<open>params.command\<close> and nothing else: its first new event is
  the approval prompt for that command, and any two parameter objects with the same
  command, whatever their \<open>requires_approval\<close>, behave alike.
\<close>

theorem requires_approval_never_read:
  assumes "get_prop params ''command'' = Inr c"
  shows "(\<exists>rest. snd (executeCommand w tr params) =
             tr @ RlQuestion (executeCommand_confirmationMessage c @ '' [y/n]: '') # rest)
       \<and> (\<forall>params'. get_prop params' ''command'' = Inr c \<longrightarrow>
             executeCommand w tr params' = executeCommand w tr params)"
proof -
  let ?m = "executeCommand_confirmationMessage c"
  obtain a tr1 where a: "askForUserApproval w tr ?m = (a, tr1)"
    by (cases "askForUserApproval w tr ?m")
  have tr1: "tr1 = tr @ [RlQuestion (?m @ '' [y/n]: '')]"
    using a snd_askForUserApproval[of w tr ?m] by simp
  have "\<exists>rest. snd (executeCommand w tr params) = tr @ RlQuestion (?m @ '' [y/n]: '') # rest"
    using assms a tr1
    by (auto simp add: executeCommand_def executeCommand_try_def split: sum.splits)
  moreover have "\<forall>params'. get_prop params' ''command'' = Inr c \<longrightarrow>
             executeCommand w tr params' = executeCommand w tr params"
    using assms by (simp add: executeCommand_def executeCommand_try_def)
  ultimately show ?thesis by blast
qed

theorem requires_approval_never_read_witness:
  "get_prop ls_params ''command'' = Inr (JString ''ls'')
   \<and> get_prop ls_params ''requires_approval'' = Inr (JString ''false'')
   \<and> executeCommand refusing_platform [] (JObject [(''command'', JString ''ls'')])
       = executeCommand refusing_platform [] ls_params
   \<and> executeCommand refusing_platform [] ls_params
       = (\<lparr>success = False, message = ''Command execution cancelled by user.''\<rparr>,
          [RlQuestion (executeCommand_confirmationMessage (JString ''ls'') @ '' [y/n]: '')])"
proof -
  have h: "get_prop ls_params ''command'' = Inr (JString ''ls'')"
    and r: "get_prop ls_params ''requires_approval'' = Inr (JString ''false'')"
    by (simp_all add: ls_params_def get_prop_def)
  have h': "get_prop (JObject [(''command'', JString ''ls'')]) ''command'' = Inr (JString ''ls'')"
    by (simp add: get_prop_def)
  have e: "executeCommand refusing_platform [] ls_params
       = (\<lparr>success = False, message = ''Command execution cancelled by user.''\<rparr>,
          [RlQuestion (executeCommand_confirmationMessage (JString ''ls'') @ '' [y/n]: '')])"
    using h by (simp add: executeCommand_def executeCommand_try_def askForUserApproval_def
        refusing_platform_def example_platform_def toLowerCase_def toLowerCase_char_def)
  from requires_approval_never_read [OF h, of refusing_platform "[]"] h'
  have "executeCommand refusing_platform [] (JObject [(''command'', JString ''ls'')])
       = executeCommand refusing_platform [] ls_params"
    by blast
  then show ?thesis
    using h r e by simp
qed

section \<open>Decoding a response\<close>

lemma not_name_char_gt: "\<not> is_name_char CHR ''>''"
  by (simp add: is_name_char_def)

lemma toolNameMatch_leading_tag:
  assumes "name \<noteq> []" and "list_all is_name_char name"
  shows "toolNameMatch (''<'' @ name @ ''>'' @ rest) = Some name"
proof -
  have a: "\<forall>x\<in>set name. is_name_char x" using assms(2) by (simp add: list_all_iff)
  have t: "takeWhile is_name_char (name @ CHR ''>'' # rest) = name"
    using a by (simp add: takeWhile_append2 not_name_char_gt)
  have d: "dropWhile is_name_char (name @ CHR ''>'' # rest) = CHR ''>'' # rest"
    using a by (simp add: dropWhile_append2 not_name_char_gt)
  show ?thesis using assms(1) t d by simp
qed

text \<open>
  C7 (amended). When the cleaned response starts with an action tag \<open><name>\<close> written in
  lower-case letters and underscores and the XML parser returns an object for the text,
  the decoded invocation has that name, and its parameters are what the parser returned
  under that name (\<open>{}\<close> when that is absent or empty). Matching child element names
  without regard to case is the parser's work: it is called with lower-casing name
  processors.
\<close>

theorem lowercase_tag_decodes:
  assumes "cleanResponse r = ''<'' @ name @ ''>'' @ rest" and "name \<noteq> []"
    and "list_all is_name_char name"
    and "parseStringPromise w (cleanResponse r) = Inr (JObject kvs)"
  shows "decodeInvocation w r =
           Inr (name, case map_of kvs name of
                        None \<Rightarrow> JObject []
                      | Some v \<Rightarrow> if truthy v then v else JObject [])"
proof -
  have "toolNameMatch (cleanResponse r) = Some name"
    using toolNameMatch_leading_tag [OF assms(2,3)] assms(1) by simp
  moreover have "cleanResponse r \<noteq> []" using assms(1) by simp
  ultimately show ?thesis using assms(4)
    by (cases "map_of kvs name") (simp_all add: decodeInvocation_def Let_def get_prop_def truthy_def)
qed

theorem lowercase_tag_decodes_witness:
  "cleanResponse fenced_response = ''<'' @ ''read_file'' @ ''>'' @ ''<path>a.txt</path></read_file>''
   \<and> ''read_file'' \<noteq> [] \<and> list_all is_name_char ''read_file''
   \<and> parseStringPromise read_file_platform (cleanResponse fenced_response)
       = Inr (JObject [(''read_file'', JObject [(''path'', JString ''a.txt'')])])
   \<and> decodeInvocation read_file_platform fenced_response
       = Inr (''read_file'', JObject [(''path'', JString ''a.txt'')])"
proof -
  have h1: "cleanResponse fenced_response
      = ''<'' @ ''read_file'' @ ''>'' @ ''<path>a.txt</path></read_file>''"
    by (simp add: fenced_response_def cleanResponse_def trim_def strip_opening_fence_def
        fence_def newline_def is_space_def toLowerCase_def toLowerCase_char_def)
  have h2: "''read_file'' \<noteq> []" by simp
  have h3: "list_all is_name_char ''read_file''" by (simp add: is_name_char_def)
  have h4: "parseStringPromise read_file_platform (cleanResponse fenced_response)
      = Inr (JObject [(''read_file'', JObject [(''path'', JString ''a.txt'')])])"
    by (simp add: read_file_platform_def example_platform_def)
  show ?thesis using h1 h2 h3 h4 lowercase_tag_decodes [OF h1 h2 h3 h4]
    by (simp add: truthy_def)
qed

text \<open>
  C7 as stated fails: the same block with its tags in upper case, for which the parser
  returns the same object, is not decoded to \<open>read_file\<close> but fails with no tool tag found.
\<close>

theorem uppercase_tag_not_decoded:
  "parseStringPromise read_file_platform ''<READ_FILE><PATH>a.txt</PATH></READ_FILE>''
     = parseStringPromise read_file_platform ''<read_file><path>a.txt</path></read_file>''
   \<and> decodeInvocation read_file_platform ''<read_file><path>a.txt</path></read_file>''
     = Inr (''read_file'', JObject [(''path'', JString ''a.txt'')])
   \<and> decodeInvocation read_file_platform ''<READ_FILE><PATH>a.txt</PATH></READ_FILE>''
     = Inl (failure ''No valid tool tag found in the cleaned response.'')"
  by (simp add: decodeInvocation_def cleanResponse_def trim_def strip_opening_fence_def
      fence_def is_space_def is_name_char_def read_file_platform_def example_platform_def
      get_prop_def truthy_def)

section \<open>One handler for each response\<close>

lemma decodeInvocation_Inl: "decodeInvocation w r = Inl x \<Longrightarrow> \<exists>m. x = failure m"
  by (auto simp: decodeInvocation_def Let_def caught_def split: if_splits option.splits sum.splits)

lemma decodeInvocation_no_tag:
  "cleanResponse r = [] \<or> toolNameMatch (cleanResponse r) = None \<Longrightarrow>
   \<exists>m. decodeInvocation w r = Inl (failure m)"
  by (auto simp: decodeInvocation_def Let_def)

lemma decodeInvocation_parse_error:
  "parseStringPromise w (cleanResponse r) = Inl e \<Longrightarrow> \<exists>m. decodeInvocation w r = Inl (failure m)"
  by (auto simp: decodeInvocation_def Let_def caught_def split: option.splits)

lemma executeTool_cases:
  "(\<exists>m. executeTool w tr name params = (failure m, tr))
   \<or> executeTool w tr name params = finished ListFile (listFile w tr params)
   \<or> executeTool w tr name params = finished ReadFile (readFile w tr params)
   \<or> executeTool w tr name params = finished WriteFile (writeFile w tr params)
   \<or> executeTool w tr name params = finished AskQuestion (askQuestion w tr params)
   \<or> executeTool w tr name params = finished ExecuteCommand (executeCommand w tr params)
   \<or> (\<exists>r. complete params = Inr r \<and> executeTool w tr name params = finished Complete (r, tr))
   \<or> (name \<notin> set toolTypes \<and> executeTool w tr name params =
        (\<lparr>response = \<lparr>success = False, message = ''Unknown tool type: '' @ name\<rparr>,
          toolType = Some name, isComplete = False\<rparr>, tr))"
  by (cases "complete params") (auto simp: executeTool_def toolTypes_def caught_def)

text \<open>
  C5 (amended). A response with no recognisable tool tag, and a response that the XML
  parser rejects, end in a failure with the events unchanged: no handler ran. Every other
  response ends in such a failure, in the unknown-tool failure, or in the result of one
  call of one handler on the one decoded invocation. The code does not count the action
  blocks of a response itself: a response with several is a failure only where the
  parser rejects it.
\<close>

theorem at_most_one_handler:
  "(cleanResponse r = [] \<or> toolNameMatch (cleanResponse r) = None \<longrightarrow>
      (\<exists>m. parseAndExecuteTool w tr r = (failure m, tr)))
   \<and> ((\<exists>e. parseStringPromise w (cleanResponse r) = Inl e) \<longrightarrow>
      (\<exists>m. parseAndExecuteTool w tr r = (failure m, tr)))
   \<and> ((\<exists>m. parseAndExecuteTool w tr r = (failure m, tr))
      \<or> (\<exists>name params. decodeInvocation w r = Inr (name, params) \<and>
           (parseAndExecuteTool w tr r = finished ListFile (listFile w tr params)
            \<or> parseAndExecuteTool w tr r = finished ReadFile (readFile w tr params)
            \<or> parseAndExecuteTool w tr r = finished WriteFile (writeFile w tr params)
            \<or> parseAndExecuteTool w tr r = finished AskQuestion (askQuestion w tr params)
            \<or> parseAndExecuteTool w tr r = finished ExecuteCommand (executeCommand w tr params)
            \<or> (\<exists>c. complete params = Inr c
                  \<and> parseAndExecuteTool w tr r = finished Complete (c, tr))
            \<or> (name \<notin> set toolTypes \<and> parseAndExecuteTool w tr r =
                 (\<lparr>response = \<lparr>success = False, message = ''Unknown tool type: '' @ name\<rparr>,
                   toolType = Some name, isComplete = False\<rparr>, tr)))))"
proof -
  have a: "cleanResponse r = [] \<or> toolNameMatch (cleanResponse r) = None \<longrightarrow>
      (\<exists>m. parseAndExecuteTool w tr r = (failure m, tr))"
    using decodeInvocation_no_tag [of r w] by (fastforce simp: parseAndExecuteTool_def)
  have b: "(\<exists>e. parseStringPromise w (cleanResponse r) = Inl e) \<longrightarrow>
      (\<exists>m. parseAndExecuteTool w tr r = (failure m, tr))"
    using decodeInvocation_parse_error [of w r] by (fastforce simp: parseAndExecuteTool_def)
  have c: "(\<exists>m. parseAndExecuteTool w tr r = (failure m, tr))
      \<or> (\<exists>name params. decodeInvocation w r = Inr (name, params) \<and>
           (parseAndExecuteTool w tr r = finished ListFile (listFile w tr params)
            \<or> parseAndExecuteTool w tr r = finished ReadFile (readFile w tr params)
            \<or> parseAndExecuteTool w tr r = finished WriteFile (writeFile w tr params)
            \<or> parseAndExecuteTool w tr r = finished AskQuestion (askQuestion w tr params)
            \<or> parseAndExecuteTool w tr r = finished ExecuteCommand (executeCommand w tr params)
            \<or> (\<exists>c. complete params = Inr c
                  \<and> parseAndExecuteTool w tr r = finished Complete (c, tr))
            \<or> (name \<notin> set toolTypes \<and> parseAndExecuteTool w tr r =
                 (\<lparr>response = \<lparr>success = False, message = ''Unknown tool type: '' @ name\<rparr>,
                   toolType = Some name, isComplete = False\<rparr>, tr))))"
  proof (cases "decodeInvocation w r")
    case (Inl x)
    then show ?thesis using decodeInvocation_Inl [OF Inl] by (auto simp: parseAndExecuteTool_def)
  next
    case (Inr np)
    obtain name params where np: "np = (name, params)" by (cases np)
    have "parseAndExecuteTool w tr r = executeTool w tr name params"
      using Inr np by (simp add: parseAndExecuteTool_def)
    then show ?thesis using Inr np executeTool_cases [of w tr name params] by auto
  qed
  show ?thesis using a b c by blast
qed

theorem at_most_one_handler_witness:
  "toolNameMatch (cleanResponse ''Done.'') = None
   \<and> parseAndExecuteTool example_platform [] ''Done.''
       = (failure ''No valid tool tag found in the cleaned response.'', [])
   \<and> parseStringPromise example_platform (cleanResponse ''<complete></complete>'')
       = Inl (Error ''Unclosed root tag'' [] [])
   \<and> parseAndExecuteTool example_platform [] ''<complete></complete>''
       = (failure ''Error processing tool response: Unclosed root tag'', [])"
proof -
  have c1: "cleanResponse ''Done.'' = ''Done.''"
    and c2: "cleanResponse ''<complete></complete>'' = ''<complete></complete>''"
    by (simp_all add: cleanResponse_def trim_def strip_opening_fence_def fence_def is_space_def)
  have h1: "toolNameMatch (cleanResponse ''Done.'') = None"
    unfolding c1 by simp
  have h2: "parseStringPromise example_platform (cleanResponse ''<complete></complete>'')
      = Inl (Error ''Unclosed root tag'' [] [])"
    by (simp add: example_platform_def)
  have e1: "fst (parseAndExecuteTool example_platform [] ''Done.'')
      = failure ''No valid tool tag found in the cleaned response.''"
    using c1 by (simp add: parseAndExecuteTool_def decodeInvocation_def)
  have e2: "fst (parseAndExecuteTool example_platform [] ''<complete></complete>'')
      = failure ''Error processing tool response: Unclosed root tag''"
    using c2 by (simp add: parseAndExecuteTool_def decodeInvocation_def is_name_char_def
        example_platform_def caught_def)
  from at_most_one_handler [of "''Done.''" example_platform "[]"] h1
  have "snd (parseAndExecuteTool example_platform [] ''Done.'') = []" by auto
  moreover from at_most_one_handler [of "''<complete></complete>''" example_platform "[]"] h2
  have "snd (parseAndExecuteTool example_platform [] ''<complete></complete>'') = []" by auto
  ultimately show ?thesis using h1 h2 e1 e2 by (simp add: prod_eq_iff)
qed

text \<open>
  C5 as stated fails: a response with two recognisable action blocks is not a decode
  failure when the parser returns an object for it. With one block inside the other, and
  with one block after the other (of which xml2js returns the first), \<open>readFile\<close> runs.
\<close>

theorem two_blocks_first_executed:
  "action_blocks nested_blocks_response = [''read_file'', ''execute_command'']
   \<and> parseAndExecuteTool nested_platform [] nested_blocks_response
       = (\<lparr>response = \<lparr>success = True, message = ''hello''\<rparr>,
           toolType = Some ''read_file'', isComplete = False\<rparr>,
          [FsReadFile (JString ''a.txt'')])
   \<and> action_blocks two_blocks_response = [''read_file'', ''execute_command'']
   \<and> parseStringPromise read_file_platform two_blocks_response
       = Inr (JObject [(''read_file'', JObject [(''path'', JString ''a.txt'')])])
   \<and> parseAndExecuteTool read_file_platform [] two_blocks_response
       = (\<lparr>response = \<lparr>success = True, message = ''hello''\<rparr>,
           toolType = Some ''read_file'', isComplete = False\<rparr>,
          [FsReadFile (JString ''a.txt'')])"
  by (simp add: action_blocks_def toolTypes_def parseAndExecuteTool_def decodeInvocation_def
      two_blocks_response_def nested_blocks_response_def cleanResponse_def trim_def
      strip_opening_fence_def fence_def is_space_def is_name_char_def read_file_platform_def
      nested_platform_def example_platform_def get_prop_def truthy_def executeTool_def
      ListFile_def ReadFile_def WriteFile_def AskQuestion_def ExecuteCommand_def Complete_def
      finished_def readFile_def readFile_try_def js_includes_def)

section \<open>Unknown tools\<close>

lemma executeTool_unknown:
  assumes "name \<notin> set toolTypes"
  shows "executeTool w tr name params =
    (\<lparr>response = \<lparr>success = False, message = ''Unknown tool type: '' @ name\<rparr>,
      toolType = Some name, isComplete = False\<rparr>, tr)"
  using assms by (simp add: executeTool_def toolTypes_def)

lemma unknown_action_turn:
  assumes "sendMessage w (sent s) m = Inr r" and "response_text r \<noteq> []"
    and "toolNameMatch (cleanResponse (response_text r)) = Some name"
    and "name \<notin> set toolTypes"
    and "parseStringPromise w (cleanResponse (response_text r)) = Inr (JObject kvs)"
  shows "snd (turn w m s) = False
       \<and> turns (fst (turn w m s)) = turns s + 1
       \<and> messageToSend (fst (turn w m s)) =
           Some (''['' @ name @ '' Result] Failure:'' @ newline @ ''Unknown tool type: '' @ name)
       \<and> main_isComplete (fst (turn w m s)) = False
       \<and> events (fst (turn w m s)) = events s"
proof -
  have ne: "cleanResponse (response_text r) \<noteq> []" using assms(3) by auto
  obtain params where d: "decodeInvocation w (response_text r) = Inr (name, params)"
    using assms(3,5) ne
    by (cases "map_of kvs name") (simp_all add: decodeInvocation_def Let_def get_prop_def)
  have "parseAndExecuteTool w tr (response_text r) =
    (\<lparr>response = \<lparr>success = False, message = ''Unknown tool type: '' @ name\<rparr>,
      toolType = Some name, isComplete = False\<rparr>, tr)" for tr
    using d executeTool_unknown[OF assms(4)] by (simp add: parseAndExecuteTool_def)
  then show ?thesis using assms(1,2)
    by (simp add: turn_def use_response_def Let_def)
qed

lemma no_tag_turn:
  assumes "sendMessage w (sent s) m = Inr r" and "response_text r = ''<unknown_tool/>''"
  shows "snd (turn w m s) = False
       \<and> turns (fst (turn w m s)) = turns s + 1
       \<and> messageToSend (fst (turn w m s)) =
           Some (''[Execution Result] Failure:'' @ newline
                 @ ''No valid tool tag found in the cleaned response.'')
       \<and> main_isComplete (fst (turn w m s)) = False
       \<and> events (fst (turn w m s)) = events s"
proof -
  have c: "cleanResponse ''<unknown_tool/>'' = ''<unknown_tool/>''"
    by (simp add: cleanResponse_def trim_def strip_opening_fence_def fence_def is_space_def)
  have "toolNameMatch ''<unknown_tool/>'' = None"
    by (simp add: is_name_char_def)
  then have "decodeInvocation w ''<unknown_tool/>'' = Inl (failure ''No valid tool tag found in the cleaned response.'')"
    using c by (simp add: decodeInvocation_def Let_def)
  then show ?thesis using assms
    by (simp add: turn_def use_response_def Let_def parseAndExecuteTool_def failure_def)
qed

text \<open>
  C8 (amended). When the response opens a tag \<open><name>\<close> whose name is none of the six
  tools, as \<open><unknown_tool></unknown_tool>\<close> does, and the parser accepts the text, the turn
  ends with the failure \<open>Unknown tool type: name\<close>: the loop goes on, the next message is
  \<open>[name Result] Failure:\<close>, a newline and that failure, and \<open>turns\<close> has grown by one.
  The self-closing \<open><unknown_tool/>\<close> is not matched by the tool-name pattern: the next
  message is then \<open>[Execution Result] Failure:\<close>, a newline and
  \<open>No valid tool tag found in the cleaned response.\<close>; the loop goes on and \<open>turns\<close>
  has grown by one all the same.
\<close>

theorem unknown_tool_turn:
  assumes "sendMessage w (sent s) m = Inr r"
  shows "(response_text r \<noteq> []
          \<and> toolNameMatch (cleanResponse (response_text r)) = Some name
          \<and> name \<notin> set toolTypes
          \<and> parseStringPromise w (cleanResponse (response_text r)) = Inr (JObject kvs) \<longrightarrow>
            snd (turn w m s) = False
          \<and> turns (fst (turn w m s)) = turns s + 1
          \<and> messageToSend (fst (turn w m s)) =
              Some (''['' @ name @ '' Result] Failure:'' @ newline
                    @ ''Unknown tool type: '' @ name)
          \<and> main_isComplete (fst (turn w m s)) = False
          \<and> events (fst (turn w m s)) = events s)
       \<and> (response_text r = ''<unknown_tool/>'' \<longrightarrow>
            snd (turn w m s) = False
          \<and> turns (fst (turn w m s)) = turns s + 1
          \<and> messageToSend (fst (turn w m s)) =
              Some (''[Execution Result] Failure:'' @ newline
                    @ ''No valid tool tag found in the cleaned response.'')
          \<and> main_isComplete (fst (turn w m s)) = False
          \<and> events (fst (turn w m s)) = events s)"
  using unknown_action_turn [OF assms, of name kvs] no_tag_turn [OF assms] by blast

theorem unknown_tool_turn_witness:
  "sendMessage unknown_tool_platform (sent (initial_state ''task'' [])) ''task''
     = Inr \<lparr>response_text = ''<unknown_tool></unknown_tool>'', finishReason = Some ''STOP''\<rparr>
   \<and> toolNameMatch (cleanResponse ''<unknown_tool></unknown_tool>'') = Some ''unknown_tool''
   \<and> ''unknown_tool'' \<notin> set toolTypes
   \<and> parseStringPromise unknown_tool_platform (cleanResponse ''<unknown_tool></unknown_tool>'')
       = Inr (JObject [(''unknown_tool'', JString [])])
   \<and> snd (turn unknown_tool_platform ''task'' (initial_state ''task'' [])) = False
   \<and> turns (fst (turn unknown_tool_platform ''task'' (initial_state ''task'' []))) = 1
   \<and> messageToSend (fst (turn unknown_tool_platform ''task'' (initial_state ''task'' [])))
       = Some (''[unknown_tool Result] Failure:'' @ newline
               @ ''Unknown tool type: unknown_tool'')
   \<and> sendMessage self_closing_platform (sent (initial_state ''task'' [])) ''task''
       = Inr \<lparr>response_text = ''<unknown_tool/>'', finishReason = Some ''STOP''\<rparr>
   \<and> snd (turn self_closing_platform ''task'' (initial_state ''task'' [])) = False
   \<and> turns (fst (turn self_closing_platform ''task'' (initial_state ''task'' []))) = 1"
proof -
  let ?r = "\<lparr>response_text = ''<unknown_tool></unknown_tool>'', finishReason = Some ''STOP''\<rparr>"
  have h0: "sendMessage unknown_tool_platform (sent (initial_state ''task'' [])) ''task''
      = Inr ?r"
    by (simp add: unknown_tool_platform_def example_platform_def)
  have c: "cleanResponse ''<unknown_tool></unknown_tool>'' = ''<unknown_tool></unknown_tool>''"
    by (simp add: cleanResponse_def trim_def strip_opening_fence_def fence_def is_space_def)
  have h1: "toolNameMatch (cleanResponse ''<unknown_tool></unknown_tool>'') = Some ''unknown_tool''"
    unfolding c by (simp add: is_name_char_def)
  have h2: "''unknown_tool'' \<notin> set toolTypes"
    by (simp add: toolTypes_def ListFile_def ReadFile_def WriteFile_def AskQuestion_def
        ExecuteCommand_def Complete_def)
  have h3: "parseStringPromise unknown_tool_platform
      (cleanResponse ''<unknown_tool></unknown_tool>'') = Inr (JObject [(''unknown_tool'', JString [])])"
    by (simp add: unknown_tool_platform_def example_platform_def)
  have t: "turns (initial_state ''task'' []) = 0"
    by (simp add: initial_state_def)
  have k0: "sendMessage self_closing_platform (sent (initial_state ''task'' [])) ''task''
      = Inr \<lparr>response_text = ''<unknown_tool/>'', finishReason = Some ''STOP''\<rparr>"
    by (simp add: self_closing_platform_def unknown_tool_platform_def example_platform_def)
  have k: "snd (turn self_closing_platform ''task'' (initial_state ''task'' [])) = False
      \<and> turns (fst (turn self_closing_platform ''task'' (initial_state ''task'' []))) = 1"
    using unknown_tool_turn [OF k0] t by simp
  show ?thesis
    using h0 h1 h2 h3 t k0 k
      unknown_tool_turn [OF h0, of "''unknown_tool''" "[(''unknown_tool'', JString [])]"]
    by simp
qed

text \<open>
  C8 as stated fails: for \<open><unknown_tool/>\<close> the failure is not the unknown-tool one, no
  tool name is reported, and the next message starts with \<open>[Execution Result]\<close>.
\<close>

theorem self_closing_unknown_tool:
  "sendMessage self_closing_platform (sent (initial_state ''task'' [])) ''task''
     = Inr \<lparr>response_text = ''<unknown_tool/>'', finishReason = Some ''STOP''\<rparr>
   \<and> parseAndExecuteTool self_closing_platform [] ''<unknown_tool/>''
       = (failure ''No valid tool tag found in the cleaned response.'', [])
   \<and> messageToSend (fst (turn self_closing_platform ''task'' (initial_state ''task'' [])))
       = Some (''[Execution Result] Failure:'' @ newline
               @ ''No valid tool tag found in the cleaned response.'')"
  by (simp add: self_closing_platform_def unknown_tool_platform_def example_platform_def
      initial_state_def turn_def use_response_def parseAndExecuteTool_def decodeInvocation_def
      cleanResponse_def trim_def strip_opening_fence_def fence_def is_space_def
      is_name_char_def failure_def Let_def)

section \<open>Absent parameters\<close>

text \<open>
  C9 (amended). \<open>readFile\<close> and \<open>writeFile\<close> with no path, and \<open>writeFile\<close> with a path
  and no content, return an unsuccessful response and add no event: the \<open>TypeError\<close> of
  reading the absent parameter is caught inside the handler. \<open>complete\<close> and
  \<open>askQuestion\<close> validate nothing: \<open>complete\<close> with no result succeeds with the text
  \<open>undefined\<close>, and \<open>askQuestion\<close> with no question asks \<open>undefined\<close> and succeeds with
  the operator's answer.
\<close>

theorem absent_required_parameter:
  "(get_prop params ''path'' = Inr JUndefined \<longrightarrow>
      readFile w tr params =
        (\<lparr>success = False, message = ''Failed to read file: ''
            @ err_message (read_error ''undefined'' ''includes'')\<rparr>, tr)
    \<and> writeFile w tr params =
        (\<lparr>success = False, message = ''Failed to write file: ''
            @ err_message (read_error ''undefined'' ''includes'')\<rparr>, tr))
   \<and> (\<forall>p. get_prop params ''path'' = Inr (JString p) \<and> \<not> str_includes p ''..''
          \<and> get_prop params ''content'' = Inr JUndefined \<longrightarrow>
      writeFile w tr params =
        (\<lparr>success = False, message = ''Failed to write file: ''
            @ err_message (read_error ''undefined'' ''substring'')\<rparr>, tr))
   \<and> (get_prop params ''result'' = Inr JUndefined \<longrightarrow>
      complete params = Inr \<lparr>success = True, message = ''Task completed: undefined''\<rparr>)
   \<and> (\<forall>a. get_prop params ''question'' = Inr JUndefined
          \<and> rl_question w tr (newline @ ''Question: undefined'' @ newline @ ''Answer: '') = Inr a
        \<longrightarrow>
      askQuestion w tr params =
        (\<lparr>success = True, message = ''User answer: '' @ a\<rparr>,
         tr @ [RlQuestion (newline @ ''Question: undefined'' @ newline @ ''Answer: '')]))"
  by (simp add: readFile_def readFile_try_def writeFile_def writeFile_try_def js_includes_def
      writeFile_confirmationMessage_def complete_def askQuestion_def askQuestion_try_def
      Let_def)

theorem absent_required_parameter_witness:
  "get_prop empty_params ''path'' = Inr JUndefined
   \<and> \<not> success (fst (readFile example_platform [] empty_params))
   \<and> snd (readFile example_platform [] empty_params) = []
   \<and> \<not> success (fst (writeFile example_platform [] empty_params))
   \<and> snd (writeFile example_platform [] empty_params) = []
   \<and> get_prop path_only_params ''path'' = Inr (JString ''hello.txt'')
   \<and> \<not> str_includes ''hello.txt'' ''..''
   \<and> get_prop path_only_params ''content'' = Inr JUndefined
   \<and> \<not> success (fst (writeFile example_platform [] path_only_params))
   \<and> snd (writeFile example_platform [] path_only_params) = []
   \<and> get_prop empty_params ''result'' = Inr JUndefined
   \<and> complete empty_params = Inr \<lparr>success = True, message = ''Task completed: undefined''\<rparr>
   \<and> get_prop empty_params ''question'' = Inr JUndefined
   \<and> fst (askQuestion example_platform [] empty_params)
       = \<lparr>success = True, message = ''User answer: y''\<rparr>"
proof -
  have h: "get_prop empty_params ''path'' = Inr JUndefined"
    "get_prop empty_params ''result'' = Inr JUndefined"
    "get_prop empty_params ''question'' = Inr JUndefined"
    by (simp_all add: empty_params_def get_prop_def)
  have q: "rl_question example_platform []
      (newline @ ''Question: undefined'' @ newline @ ''Answer: '') = Inr ''y''"
    by (simp add: example_platform_def)
  have p: "get_prop path_only_params ''path'' = Inr (JString ''hello.txt'')"
    "get_prop path_only_params ''content'' = Inr JUndefined"
    by (simp_all add: path_only_params_def get_prop_def)
  have n: "\<not> str_includes ''hello.txt'' ''..''"
    by simp
  from absent_required_parameter [of path_only_params example_platform "[]"] p n
  have "writeFile example_platform [] path_only_params =
      (\<lparr>success = False, message = ''Failed to write file: ''
          @ err_message (read_error ''undefined'' ''substring'')\<rparr>, [])"
    by blast
  then show ?thesis
    using h q p n absent_required_parameter [of empty_params example_platform "[]"] by simp
qed

text \<open>
  C9 as stated fails: \<open>complete\<close> invoked with its required parameter absent returns a
  successful response.
\<close>

theorem complete_accepts_absent_result:
  "get_prop empty_params ''result'' = Inr JUndefined
   \<and> complete empty_params = Inr \<lparr>success = True, message = ''Task completed: undefined''\<rparr>"
  by (simp add: empty_params_def get_prop_def complete_def)

section \<open>The turn budget\<close>

lemma sent_turn: "sent (fst (turn w m s)) = sent s @ [m]"
  by (simp add: turn_def Let_def catch_turn_def use_response_def split: sum.splits)

lemma main_loop_inv:
  "turns s = length (sent s) \<Longrightarrow> turns s \<le> maxTurns \<Longrightarrow>
   turns (main_loop w s) = length (sent (main_loop w s)) \<and> turns (main_loop w s) \<le> maxTurns"
proof (induction w s rule: main_loop.induct)
  case (1 w s)
  show ?case
  proof (cases "messageToSend s")
    case None
    then show ?thesis using 1 by (simp add: main_loop.simps)
  next
    case (Some m)
    show ?thesis
    proof (cases "\<not> main_isComplete s \<and> turns s < maxTurns")
      case False
      then show ?thesis using 1 Some by (auto simp add: main_loop.simps)
    next
      case True
      have t: "turns (fst (turn w m s)) = length (sent (fst (turn w m s)))"
        using 1(2) by (simp add: turns_turn sent_turn)
      have b: "turns (fst (turn w m s)) \<le> maxTurns" using True by (simp add: turns_turn)
      show ?thesis
      proof (cases "snd (turn w m s)")
        case brk: True
        then show ?thesis using Some True t b by (simp add: main_loop.simps)
      next
        case nb: False
        have "main_loop w s = main_loop w (fst (turn w m s))"
          using Some True nb by (simp add: main_loop.simps)
        then show ?thesis using 1(1) [OF Some True nb t b] by simp
      qed
    qed
  qed
qed

text \<open>
  C3. A session calls the model at most \<open>maxTurns = 15\<close> times, and a session that has
  made 15 calls closes with the report \<open>Reached maximum turns\<close>, never with
  \<open>Task Completed\<close>.
\<close>

theorem model_calls_bounded:
  "model_calls w \<le> 15
   \<and> (model_calls w = 15 \<longrightarrow>
        session_report w = Some ReachedMaximumTurns \<and> session_report w \<noteq> Some TaskCompleted)"
proof (cases "rl_question w [] ''Task: ''")
  case (Inl e)
  then show ?thesis by (simp add: model_calls_def session_report_def main_def)
next
  case (Inr task)
  let ?s = "main_loop w (initial_state task [RlQuestion ''Task: ''])"
  have m: "fst (main w) = Inr (final_report ?s, ?s)"
    using Inr by (simp add: main_def Let_def)
  have "turns ?s = length (sent ?s) \<and> turns ?s \<le> maxTurns"
    by (rule main_loop_inv) (simp_all add: initial_state_def)
  then show ?thesis using m
    by (auto simp: model_calls_def session_report_def final_report_def maxTurns_def)
qed

theorem model_calls_bounded_witness:
  "model_calls example_platform = 15
   \<and> session_report example_platform = Some ReachedMaximumTurns"
proof -
  have "model_calls example_platform = 15"
    by (simp add: model_calls_def main_def example_platform_def initial_state_def
        main_loop.simps turn_def maxTurns_def Let_def)
  then show ?thesis using model_calls_bounded [of example_platform] by simp
qed

section \<open>Safety blocks\<close>

text \<open>
  C6 says that a session whose model call is blocked for safety makes no further call and
  ends as aborted, never reported as completed. The code does not do this. When
  \<open>chat.sendMessage\<close> throws an error whose message contains \<open>SAFETY\<close>, the \<open>catch\<close>
  sets \<open>isComplete\<close> to leave the loop: no further call is made, but the closing report
  is \<open>Task Completed\<close>. The other path, an empty response with the finish reason
  \<open>SAFETY\<close>, leaves the loop by \<open>break\<close> and is reported as
  \<open>Execution stopped unexpectedly\<close>.
\<close>

theorem safety_fault_reported_completed:
  "model_calls safety_fault_platform = 1
   \<and> session_report safety_fault_platform = Some TaskCompleted
   \<and> model_calls safety_block_platform = 1
   \<and> session_report safety_block_platform = Some StoppedUnexpectedly"
  by (simp add: model_calls_def session_report_def main_def safety_fault_platform_def
      safety_block_platform_def example_platform_def initial_state_def main_loop.simps
      turn_def catch_turn_def maxTurns_def final_report_def Let_def)

end
